theory Spec2Isabelle
  imports Complex_Main "HOL-Library.Word"
begin

section \<open>JavaScript strings\<close>

text \<open>
  A JavaScript string is a sequence of UTF-16 code units. The literals of the source are
  ASCII except for four emoji; \<open>lit\<close> embeds an ASCII literal, and the emoji are written
  as their code units (a surrogate pair for the two emoji of the e-mail template).
\<close>

type_synonym jsstring = "16 word list"

definition lit :: "string \<Rightarrow> jsstring" where
  "lit s = map of_char s"

definition tabs :: "nat \<Rightarrow> jsstring" where
  "tabs n = replicate n 0x09"

text \<open>One line of a template literal: \<open>n\<close> leading tabs, the text, a line feed.\<close>

definition ln :: "nat \<Rightarrow> string \<Rightarrow> jsstring" where
  "ln n s = tabs n @ lit s @ [0x0A]"

text \<open>
  \<^verbatim>\<open>String.prototype.trim\<close> strips the code units of WhiteSpace and LineTerminator
  from both ends.
\<close>

definition is_space :: "16 word \<Rightarrow> bool" where
  "is_space c =
     (c \<in> {0x09, 0x0A, 0x0B, 0x0C, 0x0D, 0x20, 0xA0, 0x1680, 0x2028, 0x2029, 0x202F,
            0x205F, 0x3000, 0xFEFF}
      \<or> (0x2000 \<le> c \<and> c \<le> 0x200A))"

definition trim :: "jsstring \<Rightarrow> jsstring" where
  "trim s = rev (dropWhile is_space (rev (dropWhile is_space s)))"

text \<open>\<open>starts_with t s\<close>: \<open>s\<close> is a prefix of \<open>t\<close>; \<open>contains t s\<close>: \<open>s\<close> occurs in \<open>t\<close>.\<close>

fun starts_with :: "'a list \<Rightarrow> 'a list \<Rightarrow> bool" where
  "starts_with t [] = True"
| "starts_with [] (y # ys) = False"
| "starts_with (x # xs) (y # ys) = (x = y \<and> starts_with xs ys)"

fun contains :: "'a list \<Rightarrow> 'a list \<Rightarrow> bool" where
  "contains [] s = starts_with [] s"
| "contains (x # xs) s = (starts_with (x # xs) s \<or> contains xs s)"

section \<open>The e-mail template (script.js, formSubmitTemplate)\<close>

text \<open>
  The template literal of \<open>formSubmitTemplate\<close> has four substitutions
  (\<open>name\<close>, \<open>email\<close> twice, \<open>message\<close>) and so five fixed pieces, given here line by
  line as the source has them.
\<close>

definition tpl_open :: jsstring where
  "tpl_open = concat
    [ln 0 '''',
     ln 0 ''    <div style=\"'',
     ln 0 ''            font-family: 'Segoe UI', Tahoma, Geneva, Verdana, sans-serif;'',
     ln 0 ''            line-height: 1.6;'',
     ln 0 ''            max-width: 1080px;'',
     ln 0 ''            margin: 0 auto;'',
     ln 0 ''            background-color: #ffffff;'',
     ln 0 ''            border-radius: 20px;'',
     ln 0 ''            box-shadow: 0 15px 35px rgba(0, 0, 0, 0.12);'',
     ln 0 ''            overflow: hidden;'',
     ln 0 ''            border: 2px solid #f0f0f0;'',
     ln 0 ''        \">'',
     ln 1 ''<!-- Header -->'',
     ln 1 ''<header style=\"'',
     ln 0 ''            background: linear-gradient(135deg, #FF0000 0%, #bf0000 100%);'',
     ln 0 ''            padding: 40px 30px;'',
     ln 0 ''            text-align: center;'',
     ln 0 ''            position: relative;'',
     ln 0 ''            \">'',
     ln 2 ''<div style=\"'',
     ln 0 ''                background: rgba(255, 255, 255, 0.1);'',
     ln 0 ''                border-radius: 50%;'',
     ln 0 ''                width: 80px;'',
     ln 0 ''                height: 80px;'',
     ln 0 ''                margin: 0 auto 20px auto;'',
     ln 0 ''                display: flex;'',
     ln 0 ''                align-items: center;'',
     ln 0 ''                justify-content: center;'',
     ln 0 ''                font-size: 32px;'',
     ln 0 ''            \">'',
     tabs 3 @ [0xD83D, 0xDCE7] @ ln 0 '''',
     ln 2 ''</div>'',
     ln 2 ''<h1 style=\"'',
     ln 0 ''                color: #ffffff;'',
     ln 0 ''                font-size: 32px;'',
     ln 0 ''                font-weight: 600;'',
     ln 0 ''                margin: 0 0 10px 0;'',
     ln 0 ''                letter-spacing: -0.5px;'',
     ln 0 ''            \">'',
     ln 3 ''New Contact Message'',
     ln 2 ''</h1>'',
     ln 2 ''<p style=\"'',
     ln 0 ''                color: rgba(255, 255, 255, 0.9);'',
     ln 0 ''                font-size: 18px;'',
     ln 0 ''                margin: 0;'',
     ln 0 ''                font-weight: 300;'',
     ln 0 ''            \">'',
     ln 3 ''You have received a new message from your website'',
     ln 2 ''</p>'',
     ln 1 ''</header>'',
     ln 0 '''',
     ln 1 ''<!-- Main Content -->'',
     ln 1 ''<div style=\"padding: 45px 35px;\">'',
     ln 2 ''<!-- Message Details Card -->'',
     ln 2 ''<div style=\"'',
     ln 0 ''                background: linear-gradient(135deg, #f8f9ff 0%, #f0f2ff 100%);'',
     ln 0 ''                border: 2px solid #e6e8ff;'',
     ln 0 ''                border-radius: 18px;'',
     ln 0 ''                padding: 35px;'',
     ln 0 ''                margin-bottom: 30px;'',
     ln 0 ''            \">'',
     ln 3 ''<h2 style=\"'',
     ln 0 ''                    color: #4c51bf;'',
     ln 0 ''                    font-size: 20px;'',
     ln 0 ''                    font-weight: 600;'',
     ln 0 ''                    margin: 0 0 25px 0;'',
     ln 0 ''                    border-bottom: 2px solid #e6e8ff;'',
     ln 0 ''                    padding-bottom: 10px;'',
     ln 0 ''                \">'',
     ln 4 ''Contact Information'',
     ln 3 ''</h2>'',
     ln 0 '''',
     ln 3 ''<div style=\"margin-bottom: 20px;\">'',
     ln 4 ''<label style=\"'',
     ln 0 ''                        display: block;'',
     ln 0 ''                        font-size: 14px;'',
     ln 0 ''                        font-weight: 600;'',
     ln 0 ''                        color: #6b7280;'',
     ln 0 ''                        margin-bottom: 8px;'',
     ln 0 ''                        text-transform: uppercase;'',
     ln 0 ''                        letter-spacing: 0.5px;'',
     ln 0 ''                    \">'',
     ln 0 ''                        Full Name'',
     ln 0 ''                    </label>'',
     ln 4 ''<p style=\"'',
     ln 0 ''                        font-size: 18px;'',
     ln 0 ''                        color: #1f2937;'',
     ln 0 ''                        margin: 0;'',
     ln 0 ''                        padding: 12px 16px;'',
     ln 0 ''                        background-color: #ffffff;'',
     ln 0 ''                        border-radius: 10px;'',
     ln 0 ''                        border: 1px solid #d1d5db;'',
     ln 0 ''                        font-weight: 500;'',
     ln 0 ''                    \">'',
     tabs 5]"

definition tpl_after_name :: jsstring where
  "tpl_after_name = concat
    [ln 0 '''',
     ln 4 ''</p>'',
     ln 3 ''</div>'',
     ln 0 '''',
     ln 3 ''<div style=\"margin-bottom: 20px;\">'',
     ln 4 ''<label style=\"'',
     ln 0 ''                        display: block;'',
     ln 0 ''                        font-size: 14px;'',
     ln 0 ''                        font-weight: 600;'',
     ln 0 ''                        color: #6b7280;'',
     ln 0 ''                        margin-bottom: 8px;'',
     ln 0 ''                        text-transform: uppercase;'',
     ln 0 ''                        letter-spacing: 0.5px;'',
     ln 0 ''                    \">'',
     ln 0 ''                        Email Address'',
     ln 0 ''                    </label>'',
     ln 4 ''<p style=\"'',
     ln 0 ''                        font-size: 18px;'',
     ln 0 ''                        color: #1f2937;'',
     ln 0 ''                        margin: 0;'',
     ln 0 ''                        padding: 12px 16px;'',
     ln 0 ''                        background-color: #ffffff;'',
     ln 0 ''                        border-radius: 10px;'',
     ln 0 ''                        border: 1px solid #d1d5db;'',
     ln 0 ''                        font-weight: 500;'',
     ln 0 ''                    \">'',
     tabs 5 @ lit ''<a href=\"mailto:'']"

definition tpl_href_close :: jsstring where
  "tpl_href_close = concat
    [lit ''\" style=\"color: #667eea; text-decoration: none;\">'']"

definition tpl_after_email :: jsstring where
  "tpl_after_email = concat
    [ln 0 ''</a>'',
     ln 4 ''</p>'',
     ln 3 ''</div>'',
     ln 2 ''</div>'',
     ln 0 '''',
     ln 2 ''<!-- Message Content -->'',
     ln 2 ''<div style=\"'',
     ln 0 ''                background: linear-gradient(135deg, #ffeded 0%, #ffeded 100%);'',
     ln 0 ''                border: 2px solid #FF0000;'',
     ln 0 ''                border-radius: 18px;'',
     ln 0 ''                padding: 35px;'',
     ln 0 ''                margin-bottom: 30px;'',
     ln 0 ''            \">'',
     ln 3 ''<h3 style=\"'',
     ln 0 ''                    color: #92400e;'',
     ln 0 ''                    font-size: 20px;'',
     ln 0 ''                    font-weight: 600;'',
     ln 0 ''                    margin: 0 0 20px 0;'',
     ln 0 ''                    display: flex;'',
     ln 0 ''                    align-items: center;'',
     ln 0 ''                    gap: 10px;'',
     ln 0 ''                \">'',
     tabs 4 @ [0xD83D, 0xDCAC] @ lit '' Message Content'' @ ln 0 '''',
     ln 3 ''</h3>'',
     ln 3 ''<div style=\"'',
     ln 0 ''                    background-color: #ffffff;'',
     ln 0 ''                    border-radius: 12px;'',
     ln 0 ''                    padding: 25px;'',
     ln 0 ''                    border: 1px solid #fed7aa;'',
     ln 0 ''                    min-height: 120px;'',
     ln 0 ''                \">'',
     ln 4 ''<p style=\"'',
     ln 0 ''                        font-size: 16px;'',
     ln 0 ''                        color: #374151;'',
     ln 0 ''                        margin: 0;'',
     ln 0 ''                        line-height: 1.7;'',
     ln 0 ''                    \">'',
     lit ''                    '']"

definition tpl_close :: jsstring where
  "tpl_close = concat
    [ln 0 '''',
     ln 4 ''</p>'',
     ln 3 ''</div>'',
     ln 2 ''</div>'',
     ln 1 ''</div>'',
     ln 0 ''</div>'',
     lit ''    '']"

definition formSubmitTemplate :: "jsstring \<Rightarrow> jsstring \<Rightarrow> jsstring \<Rightarrow> jsstring" where
  "formSubmitTemplate name email message =
     tpl_open @ name @ tpl_after_name @ email @ tpl_href_close @ email
       @ tpl_after_email @ message @ tpl_close"

section \<open>JavaScript values\<close>

text \<open>
  The values that reach \<open>sendEmail\<close> and come back from the response are plain data:
  \<open>undefined\<close>, \<open>null\<close>, booleans, finite numbers (as rationals), strings, arrays and
  plain objects. An object is the list of its own properties in enumeration order, with
  distinct keys. Functions, symbols, BigInt values and cyclic objects are outside the
  model, so \<^verbatim>\<open>JSON.stringify\<close> does not throw on the values here.
\<close>

datatype jsval =
    JUndefined
  | JNull
  | JBool bool
  | JNum rat
  | JStr jsstring
  | JArr "jsval list"
  | JObj "(jsstring \<times> jsval) list"

datatype js_error = TypeError | FetchFailed | SyntaxError

text \<open>ToBoolean, as used by \<^verbatim>\<open>if (res && res.data)\<close>.\<close>

fun truthy :: "jsval \<Rightarrow> bool" where
  "truthy JUndefined = False"
| "truthy JNull = False"
| "truthy (JBool b) = b"
| "truthy (JNum r) = (r \<noteq> 0)"
| "truthy (JStr s) = (s \<noteq> [])"
| "truthy (JArr xs) = True"
| "truthy (JObj kvs) = True"

text \<open>Reading a property of \<open>undefined\<close> or \<open>null\<close> throws a TypeError.\<close>

fun nullish :: "jsval \<Rightarrow> bool" where
  "nullish JUndefined = True"
| "nullish JNull = True"
| "nullish v = False"

text \<open>
  \<open>get v k\<close> is the property read \<^verbatim>\<open>v.k\<close> on a value that is not nullish, for a
  key that no built-in prototype defines (the source reads \<open>sendTo\<close>, \<open>subject\<close>,
  \<open>htmlpart\<close> and \<open>data\<close>): the own property when there is one, else \<open>undefined\<close>.
\<close>

fun get :: "jsval \<Rightarrow> jsstring \<Rightarrow> jsval" where
  "get (JObj kvs) k = (case map_of kvs k of None \<Rightarrow> JUndefined | Some v \<Rightarrow> v)"
| "get v k = JUndefined"

text \<open>
  \<^verbatim>\<open>JSON.stringify\<close>, up to the encoding as text: the result is the JSON value that the
  text denotes, \<open>None\<close> where JavaScript returns \<open>undefined\<close>. A property whose value is
  \<open>undefined\<close> is left out of an object; in an array \<open>undefined\<close> becomes \<open>null\<close>.
\<close>

fun stringify :: "jsval \<Rightarrow> jsval option"
  and stringify_elems :: "jsval list \<Rightarrow> jsval list"
  and stringify_props :: "(jsstring \<times> jsval) list \<Rightarrow> (jsstring \<times> jsval) list" where
  "stringify JUndefined = None"
| "stringify JNull = Some JNull"
| "stringify (JBool b) = Some (JBool b)"
| "stringify (JNum r) = Some (JNum r)"
| "stringify (JStr s) = Some (JStr s)"
| "stringify (JArr xs) = Some (JArr (stringify_elems xs))"
| "stringify (JObj kvs) = Some (JObj (stringify_props kvs))"
| "stringify_elems [] = []"
| "stringify_elems (x # xs) =
     (case stringify x of None \<Rightarrow> JNull | Some j \<Rightarrow> j) # stringify_elems xs"
| "stringify_props [] = []"
| "stringify_props ((k, v) # kvs) =
     (case stringify v of None \<Rightarrow> stringify_props kvs
      | Some j \<Rightarrow> (k, j) # stringify_props kvs)"

text \<open>The decimal digits of a status code, as the template literal prints it.\<close>

fun decimal :: "nat \<Rightarrow> jsstring" where
  "decimal n =
     (if n < 10 then [0x30 + of_nat n]
      else decimal (n div 10) @ [0x30 + of_nat (n mod 10)])"

declare decimal.simps [simp del]

section \<open>The network and the console\<close>

text \<open>
  \<open>fetch\<close> either rejects (a network or transport failure) or resolves with a response;
  \<open>res.json()\<close> either rejects (the body does not parse) or resolves with the parsed
  value. The environment decides both, seeing the request.
\<close>

datatype json_outcome = BodyUnparsable | BodyParsed jsval

record response =
  status :: nat
  json :: json_outcome

datatype fetch_outcome = Rejected | Resolved response

record request =
  url :: jsstring
  http_method :: jsstring
  headers :: "(jsstring \<times> jsstring) list"
  body :: "jsval option"

record world =
  requests :: "request list"
  console :: "jsstring list"

definition ok :: "response \<Rightarrow> bool" where
  "ok res = (200 \<le> status res \<and> status res \<le> 299)"

definition fetch ::
  "(request \<Rightarrow> fetch_outcome) \<Rightarrow> request \<Rightarrow> 'a world_scheme
     \<Rightarrow> (js_error + response) \<times> 'a world_scheme" where
  "fetch net req w =
     (case net req of
        Rejected \<Rightarrow> (Inl FetchFailed, w\<lparr>requests := requests w @ [req]\<rparr>)
      | Resolved res \<Rightarrow> (Inr res, w\<lparr>requests := requests w @ [req]\<rparr>))"

definition res_json :: "response \<Rightarrow> js_error + jsval" where
  "res_json res =
     (case json res of BodyUnparsable \<Rightarrow> Inl SyntaxError | BodyParsed d \<Rightarrow> Inr d)"

definition console_log :: "jsstring \<Rightarrow> 'a world_scheme \<Rightarrow> 'a world_scheme" where
  "console_log msg w = w\<lparr>console := console w @ [msg]\<rparr>"

section \<open>sendEmail (script.js)\<close>

definition sender :: jsval where
  "sender = JObj [(lit ''name'', JStr (lit ''Simmer It'')),
                  (lit ''email'', JStr (lit ''noreply@arodos.com''))]"

text \<open>The object \<open>body\<close> that \<open>sendEmail\<close> builds from the destructured properties.\<close>

definition email_body :: "jsval \<Rightarrow> jsval \<Rightarrow> jsval \<Rightarrow> jsval" where
  "email_body sendTo subject htmlpart =
     JObj [(lit ''from'', sender),
           (lit ''to'', sendTo),
           (lit ''subject'', subject),
           (lit ''htmlpart'', htmlpart)]"

definition email_request :: "jsval \<Rightarrow> request" where
  "email_request b =
     \<lparr>url = lit ''https://send-email-api-v2.backendservices.in'',
      http_method = lit ''POST'',
      headers = [(lit ''Content-Type'', lit ''application/json'')],
      body = stringify b\<rparr>"

text \<open>
  The \<open>try\<close> block: an exception leaves it as \<open>Inl\<close>. Each \<open>await\<close> is the point
  where the outcome decided by the environment arrives; the function is run to its end
  in one step.
\<close>

definition sendEmail_try ::
  "(request \<Rightarrow> fetch_outcome) \<Rightarrow> jsval \<Rightarrow> 'a world_scheme
     \<Rightarrow> (js_error + jsval) \<times> 'a world_scheme" where
  "sendEmail_try net b w =
     (case fetch net (email_request b) w of
        (Inl e, w1) \<Rightarrow> (Inl e, w1)
      | (Inr res, w1) \<Rightarrow>
          if \<not> ok res
          then (Inr JNull, console_log (lit ''HTTP error! status: '' @ decimal (status res)) w1)
          else (case res_json res of
                  Inl e \<Rightarrow> (Inl e, w1)
                | Inr data \<Rightarrow> (Inr (JObj [(lit ''data'', data)]), w1)))"

text \<open>
  The destructuring of \<open>props\<close> stands before the \<open>try\<close>: on \<open>undefined\<close> or \<open>null\<close>
  it throws, and the exception leaves \<open>sendEmail\<close>. The \<open>catch\<close> turns every exception
  of the \<open>try\<close> block into a log line and \<open>null\<close>.
\<close>

definition sendEmail ::
  "(request \<Rightarrow> fetch_outcome) \<Rightarrow> jsval \<Rightarrow> 'a world_scheme
     \<Rightarrow> (js_error + jsval) \<times> 'a world_scheme" where
  "sendEmail net props w =
     (if nullish props then (Inl TypeError, w)
      else
        let sendTo = get props (lit ''sendTo'');
            subject = get props (lit ''subject'');
            htmlpart = get props (lit ''htmlpart'')
        in case sendEmail_try net (email_body sendTo subject htmlpart) w of
             (Inl e, w1) \<Rightarrow> (Inr JNull, console_log (lit ''Could not send email'') w1)
           | (Inr v, w1) \<Rightarrow> (Inr v, w1))"

section \<open>The contact form (script.js, submit handler)\<close>

text \<open>
  A form control has its current value and the default value that \<open>form.reset()\<close>
  restores. The markup of the page is not part of the scripts: the controls of the
  contact form are given by their ids, with the default values that the markup gives
  them. The handler is registered on the form at DOM-ready; \<open>submit\<close> is one run of the
  handler, and \<open>default_prevented\<close> records \<^verbatim>\<open>e.preventDefault()\<close>.
\<close>

record control =
  val :: jsstring
  default_val :: jsstring

record page = world +
  controls :: "string \<rightharpoonup> control"
  alerts :: "jsstring list"
  default_prevented :: bool

text \<open>\<^verbatim>\<open>document.getElementById(i).value\<close>: a TypeError when no element has the id.\<close>

definition field_value :: "string \<Rightarrow> page \<Rightarrow> js_error + jsstring" where
  "field_value i p = (case controls p i of None \<Rightarrow> Inl TypeError | Some c \<Rightarrow> Inr (val c))"

definition alert :: "jsstring \<Rightarrow> page \<Rightarrow> page" where
  "alert msg p = p\<lparr>alerts := alerts p @ [msg]\<rparr>"

definition form_reset :: "page \<Rightarrow> page" where
  "form_reset p =
     p\<lparr>controls := (\<lambda>i. map_option (\<lambda>c. c\<lparr>val := default_val c\<rparr>) (controls p i))\<rparr>"

definition success_msg :: jsstring where
  "success_msg = [0x2705] @ lit '' Message sent successfully!''"

definition failure_msg :: jsstring where
  "failure_msg = [0x274C] @ lit '' Failed to send message. Please try again.''"

definition destination :: jsstring where
  "destination = lit ''you@example.com''"

definition contact_subject :: jsstring where
  "contact_subject = lit ''New Message from Website Contact Form''"

text \<open>The argument of the call of \<open>sendEmail\<close> in the submit handler.\<close>

definition contact_props :: "jsstring \<Rightarrow> jsstring \<Rightarrow> jsval" where
  "contact_props name htmlContent =
     JObj [(lit ''sendTo'', JArr [JObj [(lit ''name'', JStr name),
                                        (lit ''email'', JStr destination)]]),
           (lit ''subject'', JStr contact_subject),
           (lit ''htmlpart'', JStr htmlContent)]"

definition submit :: "(request \<Rightarrow> fetch_outcome) \<Rightarrow> page \<Rightarrow> (js_error + unit) \<times> page" where
  "submit net p0 =
     (let p = p0\<lparr>default_prevented := True\<rparr> in
      case field_value ''name'' p of Inl e \<Rightarrow> (Inl e, p) | Inr n \<Rightarrow>
      case field_value ''email'' p of Inl e \<Rightarrow> (Inl e, p) | Inr em \<Rightarrow>
      case field_value ''message'' p of Inl e \<Rightarrow> (Inl e, p) | Inr m \<Rightarrow>
        let name = trim n; email = trim em; message = trim m;
            htmlContent = formSubmitTemplate name email message
        in case sendEmail net (contact_props name htmlContent) p of
             (Inl e, p1) \<Rightarrow> (Inl e, p1)
           | (Inr res, p1) \<Rightarrow>
               if truthy res \<and> truthy (get res (lit ''data''))
               then (Inr (), form_reset (alert success_msg p1))
               else (Inr (), alert failure_msg p1))"

section \<open>The mobile menu (inline script)\<close>

text \<open>
  An element is known by its id and carries its class list, an ordered set of tokens.
  \<^verbatim>\<open>classList.toggle(t)\<close> removes the token when it is there and appends it otherwise.
  An element is shown when its class list has no \<open>hidden\<close> token.
\<close>

datatype listener = ToggleMenu string string string

record menu_page =
  elems :: "string \<rightharpoonup> string list"
  listeners :: "listener list"

definition toggle :: "string \<Rightarrow> string list \<Rightarrow> string list" where
  "toggle t cl = (if t \<in> set cl then removeAll t cl else cl @ [t])"

definition classList_toggle :: "string \<Rightarrow> string \<Rightarrow> menu_page \<Rightarrow> js_error + menu_page" where
  "classList_toggle e t p =
     (case elems p e of
        None \<Rightarrow> Inl TypeError
      | Some cl \<Rightarrow> Inr (p\<lparr>elems := (elems p)(e \<mapsto> toggle t cl)\<rparr>))"

text \<open>The click handler, closed over the three elements found at DOM-ready.\<close>

fun run_listener :: "listener \<Rightarrow> menu_page \<Rightarrow> js_error + menu_page" where
  "run_listener (ToggleMenu mobileMenu hamburgerIcon closeIcon) p =
     (case classList_toggle mobileMenu ''hidden'' p of Inl e \<Rightarrow> Inl e | Inr p1 \<Rightarrow>
      case classList_toggle hamburgerIcon ''hidden'' p1 of Inl e \<Rightarrow> Inl e | Inr p2 \<Rightarrow>
      classList_toggle closeIcon ''hidden'' p2)"

text \<open>The DOMContentLoaded handler: the listener is added only when all four elements exist.\<close>

definition dom_ready :: "menu_page \<Rightarrow> menu_page" where
  "dom_ready p =
     (if elems p ''mobile-menu-button'' \<noteq> None \<and> elems p ''mobile-menu'' \<noteq> None
         \<and> elems p ''hamburger-icon'' \<noteq> None \<and> elems p ''close-icon'' \<noteq> None
      then p\<lparr>listeners := listeners p @ [ToggleMenu ''mobile-menu'' ''hamburger-icon'' ''close-icon'']\<rparr>
      else p)"

text \<open>A click on the button runs the listeners registered on it, in order.\<close>

fun dispatch :: "listener list \<Rightarrow> menu_page \<Rightarrow> js_error + menu_page" where
  "dispatch [] p = Inr p"
| "dispatch (l # ls) p = (case run_listener l p of Inl e \<Rightarrow> Inl e | Inr p1 \<Rightarrow> dispatch ls p1)"

definition click :: "menu_page \<Rightarrow> js_error + menu_page" where
  "click p = dispatch (listeners p) p"

fun clicks :: "nat \<Rightarrow> menu_page \<Rightarrow> js_error + menu_page" where
  "clicks 0 p = Inr p"
| "clicks (Suc n) p = (case click p of Inl e \<Rightarrow> Inl e | Inr p1 \<Rightarrow> clicks n p1)"

definition hidden :: "string \<Rightarrow> menu_page \<Rightarrow> bool" where
  "hidden e p = (case elems p e of None \<Rightarrow> False | Some cl \<Rightarrow> ''hidden'' \<in> set cl)"

definition visible :: "string \<Rightarrow> menu_page \<Rightarrow> bool" where
  "visible e p = (case elems p e of None \<Rightarrow> False | Some cl \<Rightarrow> ''hidden'' \<notin> set cl)"

section \<open>Concrete pages and requests\<close>

text \<open>A network that gives the same outcome to every request.\<close>

definition replies :: "fetch_outcome \<Rightarrow> request \<Rightarrow> fetch_outcome" where
  "replies out r = out"

text \<open>The request that \<open>sendEmail\<close> makes for \<open>props\<close> (when \<open>props\<close> is not nullish).\<close>

definition request_for :: "jsval \<Rightarrow> request" where
  "request_for props =
     email_request (email_body (get props (lit ''sendTo'')) (get props (lit ''subject''))
                               (get props (lit ''htmlpart'')))"

text \<open>The request that the submit handler makes for the field values \<open>n\<close>, \<open>e\<close>, \<open>m\<close>.\<close>

definition contact_request :: "jsstring \<Rightarrow> jsstring \<Rightarrow> jsstring \<Rightarrow> request" where
  "contact_request n e m =
     request_for (contact_props (trim n) (formSubmitTemplate (trim n) (trim e) (trim m)))"

text \<open>A page whose form holds the three given values, with empty defaults; nothing sent yet.\<close>

definition fresh_page :: "jsstring \<Rightarrow> jsstring \<Rightarrow> jsstring \<Rightarrow> page" where
  "fresh_page n e m =
     \<lparr>requests = [], console = [],
      controls = [''name'' \<mapsto> \<lparr>val = n, default_val = []\<rparr>,
                  ''email'' \<mapsto> \<lparr>val = e, default_val = []\<rparr>,
                  ''message'' \<mapsto> \<lparr>val = m, default_val = []\<rparr>],
      alerts = [], default_prevented = False\<rparr>"

definition fresh_world :: world where
  "fresh_world = \<lparr>requests = [], console = []\<rparr>"

text \<open>The call in the example of the documentation comment of \<open>sendEmail\<close>.\<close>

definition doc_example_props :: jsval where
  "doc_example_props =
     JObj [(lit ''sendTo'', JArr [JObj [(lit ''name'', JStr (lit ''John Doe'')),
                                        (lit ''email'', JStr (lit ''user@example.com''))]]),
           (lit ''subject'', JStr (lit ''Welcome!'')),
           (lit ''htmlPart'', JStr (lit ''<h1>Hello World</h1>''))]"

text \<open>A page with the four menu elements: the menu closed, the hamburger icon shown.\<close>

definition closed_menu :: menu_page where
  "closed_menu =
     \<lparr>elems = [''mobile-menu-button'' \<mapsto> [],
               ''mobile-menu'' \<mapsto> [''hidden''],
               ''hamburger-icon'' \<mapsto> [''block''],
               ''close-icon'' \<mapsto> [''hidden'']],
      listeners = []\<rparr>"

text \<open>The same page without the close icon.\<close>

definition menu_without_close_icon :: menu_page where
  "menu_without_close_icon =
     \<lparr>elems = [''mobile-menu-button'' \<mapsto> [],
               ''mobile-menu'' \<mapsto> [''hidden''],
               ''hamburger-icon'' \<mapsto> [''block'']],
      listeners = []\<rparr>"

section \<open>Properties of the template\<close>

lemma starts_with_append: "starts_with (s @ b) s"
  by (induction s) simp_all

lemma contains_step: "contains t s \<Longrightarrow> contains (x # t) s"
  by simp

lemma contains_append: "contains (a @ s @ b) s"
proof (induction a)
  case Nil
  show ?case by (cases "s @ b") (use starts_with_append [of s b] in auto)
next
  case (Cons x a)
  then show ?case by simp
qed

lemma template_contains_name: "contains (formSubmitTemplate n e m) n"
  unfolding formSubmitTemplate_def by (rule contains_append)

lemma template_contains_email: "contains (formSubmitTemplate n e m) e"
  using contains_append [of "tpl_open @ n @ tpl_after_name" e]
  unfolding formSubmitTemplate_def by simp

lemma template_contains_message: "contains (formSubmitTemplate n e m) m"
  using contains_append [of "tpl_open @ n @ tpl_after_name @ e @ tpl_href_close @ e @ tpl_after_email" m]
  unfolding formSubmitTemplate_def by simp

text \<open>
  C6: for name "A", email "b@x.com" and message "hi" the string returned by
  \<open>formSubmitTemplate\<close> contains the substrings "A", "b@x.com" and "hi".
\<close>

theorem C6_template_contains_inputs:
  "contains (formSubmitTemplate (lit ''A'') (lit ''b@x.com'') (lit ''hi'')) (lit ''A'')
   \<and> contains (formSubmitTemplate (lit ''A'') (lit ''b@x.com'') (lit ''hi'')) (lit ''b@x.com'')
   \<and> contains (formSubmitTemplate (lit ''A'') (lit ''b@x.com'') (lit ''hi'')) (lit ''hi'')"
  by (intro conjI template_contains_name template_contains_email template_contains_message)
section \<open>Facts about strings\<close>

lemma of_char_nat_lt: "(of_char d :: nat) < 256"
proof -
  have "(of_char d :: nat) mod 256 < 256" by simp
  then show ?thesis by (simp only: of_char_mod_256)
qed

lemma unat_of_char: "unat (of_char d :: 16 word) = of_char d"
proof -
  have "(of_char d :: 16 word) = of_nat (of_char d)" by (simp add: of_nat_of_char)
  moreover have "(of_char d :: nat) < 65536"
    using of_char_nat_lt [of d] by linarith
  then have "(of_char d :: nat) mod 65536 = of_char d"
    by (rule mod_less)
  ultimately show ?thesis by (simp add: unat_of_nat)
qed

lemma of_char_word_inj: "(of_char c :: 16 word) = of_char d \<longleftrightarrow> c = d"
proof
  assume "(of_char c :: 16 word) = of_char d"
  then have "unat (of_char c :: 16 word) = unat (of_char d :: 16 word)" by simp
  then show "c = d" by (simp add: unat_of_char)
qed simp

lemma lit_eq_iff [simp]: "lit a = lit b \<longleftrightarrow> a = b"
  unfolding lit_def
proof (induction a arbitrary: b)
  case Nil
  then show ?case by auto
next
  case (Cons x a)
  then show ?case by (cases b) (auto simp: of_char_word_inj)
qed

section \<open>Facts about sendEmail\<close>

lemma replies_apply [simp]: "replies out r = out"
  by (simp add: replies_def)

lemma sendEmail_nullish:
  "nullish props \<Longrightarrow> sendEmail net props w = (Inl TypeError, w)"
  by (simp add: sendEmail_def)

lemma sendEmail_rejected:
  assumes "\<not> nullish props" and "net (request_for props) = Rejected"
  shows "sendEmail net props w =
           (Inr JNull, console_log (lit ''Could not send email'')
                         (w\<lparr>requests := requests w @ [request_for props]\<rparr>))"
  using assms by (simp add: sendEmail_def sendEmail_try_def fetch_def request_for_def)

lemma sendEmail_not_ok:
  assumes "\<not> nullish props" and "net (request_for props) = Resolved res" and "\<not> ok res"
  shows "sendEmail net props w =
           (Inr JNull, console_log (lit ''HTTP error! status: '' @ decimal (status res))
                         (w\<lparr>requests := requests w @ [request_for props]\<rparr>))"
  using assms by (simp add: sendEmail_def sendEmail_try_def fetch_def request_for_def)

lemma sendEmail_unparsable:
  assumes "\<not> nullish props" and "net (request_for props) = Resolved res" and "ok res"
    and "json res = BodyUnparsable"
  shows "sendEmail net props w =
           (Inr JNull, console_log (lit ''Could not send email'')
                         (w\<lparr>requests := requests w @ [request_for props]\<rparr>))"
  using assms
  by (simp add: sendEmail_def sendEmail_try_def fetch_def request_for_def res_json_def)

lemma sendEmail_parsed:
  assumes "\<not> nullish props" and "net (request_for props) = Resolved res" and "ok res"
    and "json res = BodyParsed d"
  shows "sendEmail net props w =
           (Inr (JObj [(lit ''data'', d)]), w\<lparr>requests := requests w @ [request_for props]\<rparr>)"
  using assms
  by (simp add: sendEmail_def sendEmail_try_def fetch_def request_for_def res_json_def)

lemma sendEmail_requests:
  "requests (snd (sendEmail net props w)) =
     requests w @ (if nullish props then [] else [request_for props])"
proof (cases "nullish props")
  case True
  then show ?thesis by (simp add: sendEmail_nullish)
next
  case False
  show ?thesis
  proof (cases "net (request_for props)")
    case Rejected
    with False show ?thesis by (simp add: sendEmail_rejected console_log_def)
  next
    case (Resolved res)
    show ?thesis
    proof (cases "ok res")
      case nok: False
      with False Resolved show ?thesis by (simp add: sendEmail_not_ok console_log_def)
    next
      case True
      with False Resolved show ?thesis
        by (cases "json res")
           (simp_all add: sendEmail_unparsable sendEmail_parsed console_log_def)
    qed
  qed
qed

lemma stringify_sender: "stringify sender = Some sender"
  by (simp add: sender_def)

lemma request_for_from:
  "\<exists>b. body (request_for props) = Some b \<and> get b (lit ''from'') = sender"
  by (simp add: request_for_def email_request_def email_body_def stringify_sender
           split: option.split)

text \<open>
  C4 (as amended): for every \<open>props\<close> other than \<open>undefined\<close> and \<open>null\<close> and every
  network outcome, \<open>sendEmail\<close> does not throw; a rejected fetch, a non-2xx status and
  an unparsable body each give \<open>null\<close> and one log line, and a parsed body \<open>d\<close> of a 2xx
  response gives the object \<open>{data: d}\<close> and no log line.
\<close>

theorem C4_sendEmail_outcomes:
  assumes "\<not> nullish props"
  shows "fst (sendEmail net props w) =
           Inr (case net (request_for props) of
                  Rejected \<Rightarrow> JNull
                | Resolved res \<Rightarrow>
                    if ok res
                    then (case json res of
                            BodyUnparsable \<Rightarrow> JNull
                          | BodyParsed d \<Rightarrow> JObj [(lit ''data'', d)])
                    else JNull)
         \<and> console (snd (sendEmail net props w)) =
             console w @
               (case net (request_for props) of
                  Rejected \<Rightarrow> [lit ''Could not send email'']
                | Resolved res \<Rightarrow>
                    if ok res
                    then (case json res of
                            BodyUnparsable \<Rightarrow> [lit ''Could not send email'']
                          | BodyParsed d \<Rightarrow> [])
                    else [lit ''HTTP error! status: '' @ decimal (status res)])"
proof (cases "net (request_for props)")
  case Rejected
  with assms show ?thesis by (simp add: sendEmail_rejected console_log_def)
next
  case (Resolved res)
  show ?thesis
  proof (cases "ok res")
    case False
    with assms Resolved show ?thesis by (simp add: sendEmail_not_ok console_log_def)
  next
    case True
    with assms Resolved show ?thesis
      by (cases "json res")
         (simp_all add: sendEmail_unparsable sendEmail_parsed console_log_def)
  qed
qed

theorem C4_sendEmail_outcomes_witness:
  "\<not> nullish doc_example_props
   \<and> fst (sendEmail (replies (Resolved \<lparr>status = 500, json = BodyUnparsable\<rparr>))
             doc_example_props fresh_world) = Inr JNull
   \<and> console (snd (sendEmail (replies (Resolved \<lparr>status = 500, json = BodyUnparsable\<rparr>))
                 doc_example_props fresh_world))
       = [lit ''HTTP error! status: '' @ decimal 500]
   \<and> fst (sendEmail (replies (Resolved \<lparr>status = 200, json = BodyParsed (JBool True)\<rparr>))
             doc_example_props fresh_world) = Inr (JObj [(lit ''data'', JBool True)])
   \<and> fst (sendEmail (replies Rejected) doc_example_props fresh_world) = Inr JNull"
proof -
  have h: "\<not> nullish doc_example_props" by (simp add: doc_example_props_def)
  show ?thesis
    using h
      C4_sendEmail_outcomes [OF h, of "replies (Resolved \<lparr>status = 500, json = BodyUnparsable\<rparr>)" fresh_world]
      C4_sendEmail_outcomes [OF h, of "replies (Resolved \<lparr>status = 200, json = BodyParsed (JBool True)\<rparr>)" fresh_world]
      C4_sendEmail_outcomes [OF h, of "replies Rejected" fresh_world]
    by (simp add: ok_def fresh_world_def)
qed

theorem C4_nullish_props_counterexample:
  "fst (sendEmail (replies Rejected) JUndefined fresh_world) = Inl TypeError"
  by (simp add: sendEmail_def)

text \<open>
  C5 (at the call of the documentation comment): the comment names the HTML content
  \<open>props.htmlPart\<close>, the code reads \<open>props.htmlpart\<close>; for the documented call the one
  request that is sent has a body with the keys \<open>from\<close>, \<open>to\<close> and \<open>subject\<close> only.
\<close>

theorem C5_doc_example_body_without_htmlpart:
  "requests (snd (sendEmail net doc_example_props w)) =
     requests w @
       [\<lparr>url = lit ''https://send-email-api-v2.backendservices.in'',
         http_method = lit ''POST'',
         headers = [(lit ''Content-Type'', lit ''application/json'')],
         body = Some (JObj [(lit ''from'', sender),
                            (lit ''to'', JArr [JObj [(lit ''name'', JStr (lit ''John Doe'')),
                                                     (lit ''email'', JStr (lit ''user@example.com''))]]),
                            (lit ''subject'', JStr (lit ''Welcome!''))])\<rparr>]"
  by (simp add: sendEmail_requests request_for_def email_request_def email_body_def
        doc_example_props_def stringify_sender)

text \<open>
  C9: whatever the arguments, every request that a call of \<open>sendEmail\<close> sends has a body
  whose \<open>from\<close> field is the constant \<open>{name: "Simmer It", email: "noreply@arodos.com"}\<close>.
\<close>

theorem C9_from_is_constant:
  assumes "requests (snd (sendEmail net props w)) = requests w @ rs" and "r \<in> set rs"
  shows "\<exists>b. body r = Some b
           \<and> get b (lit ''from'')
               = JObj [(lit ''name'', JStr (lit ''Simmer It'')),
                       (lit ''email'', JStr (lit ''noreply@arodos.com''))]"
proof -
  from assms have "r = request_for props"
    by (auto simp: sendEmail_requests split: if_splits)
  then show ?thesis using request_for_from [of props] by (simp add: sender_def)
qed

theorem C9_from_is_constant_witness:
  "requests (snd (sendEmail (replies Rejected) doc_example_props fresh_world))
     = requests fresh_world @ [request_for doc_example_props]
   \<and> request_for doc_example_props \<in> set [request_for doc_example_props]
   \<and> (\<exists>b. body (request_for doc_example_props) = Some b
           \<and> get b (lit ''from'')
               = JObj [(lit ''name'', JStr (lit ''Simmer It'')),
                       (lit ''email'', JStr (lit ''noreply@arodos.com''))])"
proof -
  have h1: "requests (snd (sendEmail (replies Rejected) doc_example_props fresh_world))
              = requests fresh_world @ [request_for doc_example_props]"
    by (simp add: sendEmail_requests doc_example_props_def)
  have h2: "request_for doc_example_props \<in> set [request_for doc_example_props]" by simp
  show ?thesis using h1 h2 C9_from_is_constant [OF h1 h2] by simp
qed

section \<open>Facts about the submit handler\<close>

lemma contact_props_not_nullish: "\<not> nullish (contact_props n h)"
  by (simp add: contact_props_def)

lemma contact_request_eq:
  "contact_request n e m =
     \<lparr>url = lit ''https://send-email-api-v2.backendservices.in'',
      http_method = lit ''POST'',
      headers = [(lit ''Content-Type'', lit ''application/json'')],
      body = Some (JObj [(lit ''from'', sender),
                         (lit ''to'', JArr [JObj [(lit ''name'', JStr (trim n)),
                                                  (lit ''email'', JStr destination)]]),
                         (lit ''subject'', JStr contact_subject),
                         (lit ''htmlpart'',
                            JStr (formSubmitTemplate (trim n) (trim e) (trim m)))])\<rparr>"
  by (simp add: contact_request_def request_for_def contact_props_def email_request_def
        email_body_def stringify_sender)

lemma submit_fields:
  assumes "controls p ''name'' = Some cn" and "controls p ''email'' = Some ce"
    and "controls p ''message'' = Some cm"
  shows "submit net p =
           (case sendEmail net
                   (contact_props (trim (val cn))
                      (formSubmitTemplate (trim (val cn)) (trim (val ce)) (trim (val cm))))
                   (p\<lparr>default_prevented := True\<rparr>) of
              (Inl e, p1) \<Rightarrow> (Inl e, p1)
            | (Inr res, p1) \<Rightarrow>
                if truthy res \<and> truthy (get res (lit ''data''))
                then (Inr (), form_reset (alert success_msg p1))
                else (Inr (), alert failure_msg p1))"
  using assms by (simp add: submit_def field_value_def Let_def)

lemma submit_rejected:
  assumes "controls p ''name'' = Some cn" and "controls p ''email'' = Some ce"
    and "controls p ''message'' = Some cm"
    and "net (contact_request (val cn) (val ce) (val cm)) = Rejected"
  shows "submit net p =
           (Inr (), alert failure_msg (console_log (lit ''Could not send email'')
              (p\<lparr>default_prevented := True,
                 requests := requests p @ [contact_request (val cn) (val ce) (val cm)]\<rparr>)))"
  using assms(4)
  by (simp add: submit_fields [OF assms(1-3)] contact_request_def
        sendEmail_rejected [OF contact_props_not_nullish])

lemma submit_not_ok:
  assumes "controls p ''name'' = Some cn" and "controls p ''email'' = Some ce"
    and "controls p ''message'' = Some cm"
    and "net (contact_request (val cn) (val ce) (val cm)) = Resolved res" and "\<not> ok res"
  shows "submit net p =
           (Inr (), alert failure_msg
              (console_log (lit ''HTTP error! status: '' @ decimal (status res))
                 (p\<lparr>default_prevented := True,
                    requests := requests p @ [contact_request (val cn) (val ce) (val cm)]\<rparr>)))"
  using assms(4,5)
  by (simp add: submit_fields [OF assms(1-3)] contact_request_def
        sendEmail_not_ok [OF contact_props_not_nullish])

lemma submit_unparsable:
  assumes "controls p ''name'' = Some cn" and "controls p ''email'' = Some ce"
    and "controls p ''message'' = Some cm"
    and "net (contact_request (val cn) (val ce) (val cm)) = Resolved res" and "ok res"
    and "json res = BodyUnparsable"
  shows "submit net p =
           (Inr (), alert failure_msg (console_log (lit ''Could not send email'')
              (p\<lparr>default_prevented := True,
                 requests := requests p @ [contact_request (val cn) (val ce) (val cm)]\<rparr>)))"
  using assms(4,5,6)
  by (simp add: submit_fields [OF assms(1-3)] contact_request_def
        sendEmail_unparsable [OF contact_props_not_nullish])

lemma submit_parsed:
  assumes "controls p ''name'' = Some cn" and "controls p ''email'' = Some ce"
    and "controls p ''message'' = Some cm"
    and "net (contact_request (val cn) (val ce) (val cm)) = Resolved res" and "ok res"
    and "json res = BodyParsed d"
  shows "submit net p =
           (Inr (),
            if truthy d
            then form_reset (alert success_msg
                   (p\<lparr>default_prevented := True,
                      requests := requests p @ [contact_request (val cn) (val ce) (val cm)]\<rparr>))
            else alert failure_msg
                   (p\<lparr>default_prevented := True,
                      requests := requests p @ [contact_request (val cn) (val ce) (val cm)]\<rparr>))"
  using assms(4,5,6)
  by (simp add: submit_fields [OF assms(1-3)] contact_request_def
        sendEmail_parsed [OF contact_props_not_nullish])

lemma submit_requests:
  assumes "controls p ''name'' = Some cn" and "controls p ''email'' = Some ce"
    and "controls p ''message'' = Some cm"
  shows "requests (snd (submit net p)) =
           requests p @ [contact_request (val cn) (val ce) (val cm)]"
proof (cases "net (contact_request (val cn) (val ce) (val cm))")
  case Rejected
  then show ?thesis
    by (simp add: submit_rejected [where net = net, OF assms] alert_def console_log_def)
next
  case (Resolved res)
  show ?thesis
  proof (cases "ok res")
    case False
    with Resolved show ?thesis
      by (simp add: submit_not_ok [where net = net, OF assms] alert_def console_log_def)
  next
    case True
    show ?thesis
    proof (cases "json res")
      case BodyUnparsable
      with Resolved True show ?thesis
        by (simp add: submit_unparsable [where net = net, OF assms] alert_def console_log_def)
    next
      case (BodyParsed d)
      with Resolved True show ?thesis
        by (simp add: submit_parsed [where net = net, OF assms] alert_def form_reset_def)
    qed
  qed
qed

lemma fresh_page_controls:
  "controls (fresh_page n e m) ''name'' = Some \<lparr>val = n, default_val = []\<rparr>"
  "controls (fresh_page n e m) ''email'' = Some \<lparr>val = e, default_val = []\<rparr>"
  "controls (fresh_page n e m) ''message'' = Some \<lparr>val = m, default_val = []\<rparr>"
  by (simp_all add: fresh_page_def)

lemma trim_Zoe: "trim ([0x3000] @ lit ''Zoe'') = lit ''Zoe''"
  by (simp add: trim_def lit_def is_space_def)

lemma trim_email: "trim (lit ''b@x.com'') = lit ''b@x.com''"
  by (simp add: trim_def lit_def is_space_def)

lemma trim_hi: "trim (lit ''hi'') = lit ''hi''"
  by (simp add: trim_def lit_def is_space_def)

text \<open>
  C1: for every submission of the form (the three fields existing, empty or not), the
  handler sends one request; its body has exactly one recipient, whose e-mail is the
  fixed destination address whatever the form holds, the fixed subject, and an HTML part
  that contains the submitted name, e-mail and message verbatim. The submitted texts are
  the field values as the handler captures them, that is, after \<open>trim\<close>.
\<close>

theorem C1_request_body_of_submission:
  assumes "controls p ''name'' = Some cn" and "controls p ''email'' = Some ce"
    and "controls p ''message'' = Some cm"
  shows "requests (snd (submit net p)) =
           requests p @
             [\<lparr>url = lit ''https://send-email-api-v2.backendservices.in'',
               http_method = lit ''POST'',
               headers = [(lit ''Content-Type'', lit ''application/json'')],
               body = Some (JObj
                 [(lit ''from'', sender),
                  (lit ''to'', JArr [JObj [(lit ''name'', JStr (trim (val cn))),
                                           (lit ''email'', JStr (lit ''you@example.com''))]]),
                  (lit ''subject'', JStr (lit ''New Message from Website Contact Form'')),
                  (lit ''htmlpart'',
                     JStr (formSubmitTemplate (trim (val cn)) (trim (val ce)) (trim (val cm))))])\<rparr>]
         \<and> contains (formSubmitTemplate (trim (val cn)) (trim (val ce)) (trim (val cm)))
               (trim (val cn))
         \<and> contains (formSubmitTemplate (trim (val cn)) (trim (val ce)) (trim (val cm)))
               (trim (val ce))
         \<and> contains (formSubmitTemplate (trim (val cn)) (trim (val ce)) (trim (val cm)))
               (trim (val cm))"
  by (simp add: submit_requests [OF assms] contact_request_eq destination_def
        contact_subject_def template_contains_name template_contains_email
        template_contains_message)

theorem C1_request_body_of_submission_witness:
  "controls (fresh_page ([0x3000] @ lit ''Zoe'') (lit ''b@x.com'') (lit ''hi'')) ''name''
     = Some \<lparr>val = [0x3000] @ lit ''Zoe'', default_val = []\<rparr>
   \<and> controls (fresh_page ([0x3000] @ lit ''Zoe'') (lit ''b@x.com'') (lit ''hi'')) ''email''
     = Some \<lparr>val = lit ''b@x.com'', default_val = []\<rparr>
   \<and> controls (fresh_page ([0x3000] @ lit ''Zoe'') (lit ''b@x.com'') (lit ''hi'')) ''message''
     = Some \<lparr>val = lit ''hi'', default_val = []\<rparr>
   \<and> contains (formSubmitTemplate (lit ''Zoe'') (lit ''b@x.com'') (lit ''hi'')) (lit ''Zoe'')
   \<and> contains (formSubmitTemplate (lit ''Zoe'') (lit ''b@x.com'') (lit ''hi'')) (lit ''b@x.com'')
   \<and> contains (formSubmitTemplate (lit ''Zoe'') (lit ''b@x.com'') (lit ''hi'')) (lit ''hi'')"
proof -
  note c = fresh_page_controls [of "[0x3000] @ lit ''Zoe''" "lit ''b@x.com''" "lit ''hi''"]
  show ?thesis
    using c C1_request_body_of_submission [OF c, of "replies Rejected"]
    by (simp add: trim_Zoe [simplified] trim_email trim_hi)
qed

text \<open>
  C2 (as amended): when the response has a 2xx status and its body parses to a truthy
  value (anything but \<open>null\<close>, \<open>false\<close>, \<open>0\<close> and the empty string), the handler shows
  the success alert and \<open>form.reset()\<close> gives each of the three fields its default
  value, which is empty where the markup gives the field no initial value.
\<close>

theorem C2_success_alert_and_reset:
  assumes "controls p ''name'' = Some cn" and "controls p ''email'' = Some ce"
    and "controls p ''message'' = Some cm"
    and "net (contact_request (val cn) (val ce) (val cm)) = Resolved res"
    and "ok res" and "json res = BodyParsed d" and "truthy d"
  shows "fst (submit net p) = Inr ()
         \<and> alerts (snd (submit net p)) = alerts p @ [success_msg]
         \<and> controls (snd (submit net p)) ''name'' = Some (cn\<lparr>val := default_val cn\<rparr>)
         \<and> controls (snd (submit net p)) ''email'' = Some (ce\<lparr>val := default_val ce\<rparr>)
         \<and> controls (snd (submit net p)) ''message'' = Some (cm\<lparr>val := default_val cm\<rparr>)"
  using assms(7)
  by (simp add: submit_parsed [where net = net, OF assms(1-6)] form_reset_def alert_def assms(1-3))

theorem C2_success_alert_and_reset_witness:
  "ok \<lparr>status = 200, json = BodyParsed (JObj [(lit ''sent'', JBool True)])\<rparr>
   \<and> truthy (JObj [(lit ''sent'', JBool True)])
   \<and> alerts (snd (submit (replies (Resolved \<lparr>status = 200,
                                json = BodyParsed (JObj [(lit ''sent'', JBool True)])\<rparr>))
                  (fresh_page (lit ''Zoe'') (lit ''b@x.com'') (lit ''hi'')))) = [success_msg]
   \<and> controls (snd (submit (replies (Resolved \<lparr>status = 200,
                                json = BodyParsed (JObj [(lit ''sent'', JBool True)])\<rparr>))
                  (fresh_page (lit ''Zoe'') (lit ''b@x.com'') (lit ''hi'')))) ''name''
       = Some \<lparr>val = [], default_val = []\<rparr>
   \<and> controls (snd (submit (replies (Resolved \<lparr>status = 200,
                                json = BodyParsed (JObj [(lit ''sent'', JBool True)])\<rparr>))
                  (fresh_page (lit ''Zoe'') (lit ''b@x.com'') (lit ''hi'')))) ''email''
       = Some \<lparr>val = [], default_val = []\<rparr>
   \<and> controls (snd (submit (replies (Resolved \<lparr>status = 200,
                                json = BodyParsed (JObj [(lit ''sent'', JBool True)])\<rparr>))
                  (fresh_page (lit ''Zoe'') (lit ''b@x.com'') (lit ''hi'')))) ''message''
       = Some \<lparr>val = [], default_val = []\<rparr>"
proof -
  have h: "ok \<lparr>status = 200, json = BodyParsed (JObj [(lit ''sent'', JBool True)])\<rparr>"
    by (simp add: ok_def)
  have a: "alerts (fresh_page (lit ''Zoe'') (lit ''b@x.com'') (lit ''hi'')) = []"
    by (simp add: fresh_page_def)
  note c = fresh_page_controls [of "lit ''Zoe''" "lit ''b@x.com''" "lit ''hi''"]
  show ?thesis
    using h a
      C2_success_alert_and_reset [where
        net = "replies (Resolved \<lparr>status = 200, json = BodyParsed (JObj [(lit ''sent'', JBool True)])\<rparr>)"
        and res = "\<lparr>status = 200, json = BodyParsed (JObj [(lit ''sent'', JBool True)])\<rparr>"
        and d = "JObj [(lit ''sent'', JBool True)]", OF c _ h]
    by simp
qed

text \<open>
  The claim as it is written fails when the body parses to a falsy value: for the
  response \<open>200\<close> with the body \<open>false\<close> the handler shows the failure alert and leaves
  the fields as they are.
\<close>

theorem C2_falsy_body_counterexample:
  "alerts (snd (submit (replies (Resolved \<lparr>status = 200, json = BodyParsed (JBool False)\<rparr>))
                  (fresh_page (lit ''Zoe'') (lit ''b@x.com'') (lit ''hi'')))) = [failure_msg]
   \<and> controls (snd (submit (replies (Resolved \<lparr>status = 200, json = BodyParsed (JBool False)\<rparr>))
                  (fresh_page (lit ''Zoe'') (lit ''b@x.com'') (lit ''hi'')))) ''name''
       = Some \<lparr>val = lit ''Zoe'', default_val = []\<rparr>"
proof -
  have h: "ok \<lparr>status = 200, json = BodyParsed (JBool False)\<rparr>"
    by (simp add: ok_def)
  have a: "alerts (fresh_page (lit ''Zoe'') (lit ''b@x.com'') (lit ''hi'')) = []"
    by (simp add: fresh_page_def)
  note c = fresh_page_controls [of "lit ''Zoe''" "lit ''b@x.com''" "lit ''hi''"]
  have "submit (replies (Resolved \<lparr>status = 200, json = BodyParsed (JBool False)\<rparr>))
          (fresh_page (lit ''Zoe'') (lit ''b@x.com'') (lit ''hi'')) =
        (Inr (), alert failure_msg
           ((fresh_page (lit ''Zoe'') (lit ''b@x.com'') (lit ''hi''))
              \<lparr>default_prevented := True,
                 requests := requests (fresh_page (lit ''Zoe'') (lit ''b@x.com'') (lit ''hi''))
                   @ [contact_request (lit ''Zoe'') (lit ''b@x.com'') (lit ''hi'')]\<rparr>))"
    using submit_parsed [where net = "replies (Resolved \<lparr>status = 200, json = BodyParsed (JBool False)\<rparr>)"
        and res = "\<lparr>status = 200, json = BodyParsed (JBool False)\<rparr>" and d = "JBool False",
        OF c _ h]
    by simp
  then show ?thesis
    using a c by (simp add: alert_def)
qed

text \<open>
  C3: when the response has a status outside 200..299, the handler shows the failure
  alert and leaves every form control as it is.
\<close>

theorem C3_failure_alert_no_reset:
  assumes "controls p ''name'' = Some cn" and "controls p ''email'' = Some ce"
    and "controls p ''message'' = Some cm"
    and "net (contact_request (val cn) (val ce) (val cm)) = Resolved res"
    and "\<not> ok res"
  shows "fst (submit net p) = Inr ()
         \<and> alerts (snd (submit net p)) = alerts p @ [failure_msg]
         \<and> controls (snd (submit net p)) = controls p"
  by (simp add: submit_not_ok [where net = net, OF assms] alert_def console_log_def)

theorem C3_failure_alert_no_reset_witness:
  "\<not> ok \<lparr>status = 404, json = BodyUnparsable\<rparr>
   \<and> alerts (snd (submit (replies (Resolved \<lparr>status = 404, json = BodyUnparsable\<rparr>))
                  (fresh_page (lit ''Zoe'') (lit ''b@x.com'') (lit ''hi'')))) = [failure_msg]
   \<and> controls (snd (submit (replies (Resolved \<lparr>status = 404, json = BodyUnparsable\<rparr>))
                  (fresh_page (lit ''Zoe'') (lit ''b@x.com'') (lit ''hi''))))
       = controls (fresh_page (lit ''Zoe'') (lit ''b@x.com'') (lit ''hi''))"
proof -
  have h: "\<not> ok \<lparr>status = 404, json = BodyUnparsable\<rparr>"
    by (simp add: ok_def)
  have a: "alerts (fresh_page (lit ''Zoe'') (lit ''b@x.com'') (lit ''hi'')) = []"
    by (simp add: fresh_page_def)
  note c = fresh_page_controls [of "lit ''Zoe''" "lit ''b@x.com''" "lit ''hi''"]
  show ?thesis
    using h a
      C3_failure_alert_no_reset [where
        net = "replies (Resolved \<lparr>status = 404, json = BodyUnparsable\<rparr>)"
        and res = "\<lparr>status = 404, json = BodyUnparsable\<rparr>", OF c _ h]
    by simp
qed

section \<open>Facts about the mobile menu\<close>

lemma toggle_member: "t \<in> set (toggle t cl) \<longleftrightarrow> t \<notin> set cl"
  by (simp add: toggle_def)

lemma toggle_keeps_others: "removeAll t (toggle t cl) = removeAll t cl"
  by (simp add: toggle_def)

lemma toggle_twice_set: "set (toggle t (toggle t cl)) = set cl"
  by (auto simp: toggle_def)

lemma dom_ready_all_present:
  assumes "elems p ''mobile-menu-button'' = Some b" and "elems p ''mobile-menu'' = Some m"
    and "elems p ''hamburger-icon'' = Some h" and "elems p ''close-icon'' = Some c"
  shows "dom_ready p =
           p\<lparr>listeners := listeners p
                @ [ToggleMenu ''mobile-menu'' ''hamburger-icon'' ''close-icon'']\<rparr>"
  using assms by (simp add: dom_ready_def)

lemma dom_ready_one_absent:
  assumes "elems p ''mobile-menu-button'' = None \<or> elems p ''mobile-menu'' = None
           \<or> elems p ''hamburger-icon'' = None \<or> elems p ''close-icon'' = None"
  shows "dom_ready p = p"
  using assms by (auto simp: dom_ready_def)

lemma click_registered:
  assumes "listeners p = [ToggleMenu ''mobile-menu'' ''hamburger-icon'' ''close-icon'']"
    and "elems p ''mobile-menu'' = Some m" and "elems p ''hamburger-icon'' = Some h"
    and "elems p ''close-icon'' = Some c"
  shows "click p =
           Inr (p\<lparr>elems := (elems p)(''mobile-menu'' \<mapsto> toggle ''hidden'' m,
                                       ''hamburger-icon'' \<mapsto> toggle ''hidden'' h,
                                       ''close-icon'' \<mapsto> toggle ''hidden'' c)\<rparr>)"
  using assms by (simp add: click_def classList_toggle_def)

lemma clicks_unregistered: "listeners p = [] \<Longrightarrow> clicks n p = Inr p"
  by (induction n) (simp_all add: click_def)

lemma clicks_registered:
  assumes "listeners p = [ToggleMenu ''mobile-menu'' ''hamburger-icon'' ''close-icon'']"
    and "elems p ''mobile-menu'' = Some m" and "elems p ''hamburger-icon'' = Some h"
    and "elems p ''close-icon'' = Some c"
  shows "\<exists>p' m' h' c'. clicks n p = Inr p'
           \<and> listeners p' = listeners p
           \<and> elems p' ''mobile-menu'' = Some m'
           \<and> elems p' ''hamburger-icon'' = Some h'
           \<and> elems p' ''close-icon'' = Some c'
           \<and> (''hidden'' \<in> set m') = (if even n then ''hidden'' \<in> set m else ''hidden'' \<notin> set m)
           \<and> (''hidden'' \<in> set h') = (if even n then ''hidden'' \<in> set h else ''hidden'' \<notin> set h)
           \<and> (''hidden'' \<in> set c') = (if even n then ''hidden'' \<in> set c else ''hidden'' \<notin> set c)"
  using assms
proof (induction n arbitrary: p m h c)
  case 0
  then show ?case by simp
next
  case (Suc n)
  let ?p1 = "p\<lparr>elems := (elems p)(''mobile-menu'' \<mapsto> toggle ''hidden'' m,
                                    ''hamburger-icon'' \<mapsto> toggle ''hidden'' h,
                                    ''close-icon'' \<mapsto> toggle ''hidden'' c)\<rparr>"
  have step: "click p = Inr ?p1"
    using Suc.prems by (rule click_registered)
  have "\<exists>p' m' h' c'. clicks n ?p1 = Inr p'
           \<and> listeners p' = listeners ?p1
           \<and> elems p' ''mobile-menu'' = Some m'
           \<and> elems p' ''hamburger-icon'' = Some h'
           \<and> elems p' ''close-icon'' = Some c'
           \<and> (''hidden'' \<in> set m') = (if even n then ''hidden'' \<in> set (toggle ''hidden'' m)
                                        else ''hidden'' \<notin> set (toggle ''hidden'' m))
           \<and> (''hidden'' \<in> set h') = (if even n then ''hidden'' \<in> set (toggle ''hidden'' h)
                                        else ''hidden'' \<notin> set (toggle ''hidden'' h))
           \<and> (''hidden'' \<in> set c') = (if even n then ''hidden'' \<in> set (toggle ''hidden'' c)
                                        else ''hidden'' \<notin> set (toggle ''hidden'' c))"
    using Suc.prems(1) by (intro Suc.IH) simp_all
  then show ?case
    by (cases "even n") (simp_all add: step toggle_member)
qed

text \<open>
  C7: on a page with the four elements on which exactly one of the two icons is shown,
  after any number of clicks the two icons are not both shown (exactly one is), and the
  next click flips the menu panel and each of the two icons.
\<close>

theorem C7_click_flips_and_keeps_icons_exclusive:
  assumes "elems p0 ''mobile-menu-button'' = Some b" and "elems p0 ''mobile-menu'' = Some m"
    and "elems p0 ''hamburger-icon'' = Some h" and "elems p0 ''close-icon'' = Some c"
    and "listeners p0 = []"
    and "visible ''hamburger-icon'' p0 \<noteq> visible ''close-icon'' p0"
  shows "\<exists>p p'. clicks n (dom_ready p0) = Inr p \<and> click p = Inr p'
           \<and> visible ''mobile-menu'' p' = (\<not> visible ''mobile-menu'' p)
           \<and> visible ''hamburger-icon'' p' = (\<not> visible ''hamburger-icon'' p)
           \<and> visible ''close-icon'' p' = (\<not> visible ''close-icon'' p)
           \<and> \<not> (visible ''hamburger-icon'' p \<and> visible ''close-icon'' p)
           \<and> \<not> (visible ''hamburger-icon'' p' \<and> visible ''close-icon'' p')
           \<and> visible ''hamburger-icon'' p \<noteq> visible ''close-icon'' p
           \<and> visible ''hamburger-icon'' p' \<noteq> visible ''close-icon'' p'"
proof -
  let ?q = "dom_ready p0"
  have q: "?q = p0\<lparr>listeners := [ToggleMenu ''mobile-menu'' ''hamburger-icon'' ''close-icon'']\<rparr>"
    using dom_ready_all_present [OF assms(1-4)] assms(5) by simp
  have ql: "listeners ?q = [ToggleMenu ''mobile-menu'' ''hamburger-icon'' ''close-icon'']"
    and qm: "elems ?q ''mobile-menu'' = Some m"
    and qh: "elems ?q ''hamburger-icon'' = Some h"
    and qc: "elems ?q ''close-icon'' = Some c"
    using assms(2-4) by (simp_all add: q)
  from clicks_registered [OF ql qm qh qc, of n]
  obtain p m' h' c' where p: "clicks n ?q = Inr p"
    and pl: "listeners p = [ToggleMenu ''mobile-menu'' ''hamburger-icon'' ''close-icon'']"
    and pm: "elems p ''mobile-menu'' = Some m'"
    and ph: "elems p ''hamburger-icon'' = Some h'"
    and pc: "elems p ''close-icon'' = Some c'"
    and hh: "(''hidden'' \<in> set h') = (if even n then ''hidden'' \<in> set h else ''hidden'' \<notin> set h)"
    and hc: "(''hidden'' \<in> set c') = (if even n then ''hidden'' \<in> set c else ''hidden'' \<notin> set c)"
    using ql by auto
  have one: "(''hidden'' \<in> set h) \<noteq> (''hidden'' \<in> set c)"
    using assms(3,4,6) by (simp add: visible_def)
  have one': "(''hidden'' \<in> set h') \<noteq> (''hidden'' \<in> set c')"
    using one hh hc by (simp split: if_splits)
  let ?p' = "p\<lparr>elems := (elems p)(''mobile-menu'' \<mapsto> toggle ''hidden'' m',
                                    ''hamburger-icon'' \<mapsto> toggle ''hidden'' h',
                                    ''close-icon'' \<mapsto> toggle ''hidden'' c')\<rparr>"
  have step: "click p = Inr ?p'"
    using pl pm ph pc by (rule click_registered)
  have "visible ''mobile-menu'' ?p' = (\<not> visible ''mobile-menu'' p)"
    and "visible ''hamburger-icon'' ?p' = (\<not> visible ''hamburger-icon'' p)"
    and "visible ''close-icon'' ?p' = (\<not> visible ''close-icon'' p)"
    and "visible ''hamburger-icon'' p \<noteq> visible ''close-icon'' p"
    using pm ph pc one' by (simp_all add: visible_def toggle_member)
  then show ?thesis
    using p step by (intro exI [of _ p] exI [of _ ?p']) auto
qed

theorem C7_click_flips_and_keeps_icons_exclusive_witness:
  "elems closed_menu ''mobile-menu-button'' = Some []
   \<and> elems closed_menu ''mobile-menu'' = Some [''hidden'']
   \<and> elems closed_menu ''hamburger-icon'' = Some [''block'']
   \<and> elems closed_menu ''close-icon'' = Some [''hidden'']
   \<and> listeners closed_menu = []
   \<and> visible ''hamburger-icon'' closed_menu \<noteq> visible ''close-icon'' closed_menu
   \<and> (\<exists>p p'. clicks 3 (dom_ready closed_menu) = Inr p \<and> click p = Inr p'
           \<and> visible ''mobile-menu'' p' = (\<not> visible ''mobile-menu'' p)
           \<and> visible ''hamburger-icon'' p' = (\<not> visible ''hamburger-icon'' p)
           \<and> visible ''close-icon'' p' = (\<not> visible ''close-icon'' p)
           \<and> \<not> (visible ''hamburger-icon'' p \<and> visible ''close-icon'' p)
           \<and> \<not> (visible ''hamburger-icon'' p' \<and> visible ''close-icon'' p')
           \<and> visible ''hamburger-icon'' p \<noteq> visible ''close-icon'' p
           \<and> visible ''hamburger-icon'' p' \<noteq> visible ''close-icon'' p')"
proof -
  have e: "elems closed_menu ''mobile-menu-button'' = Some []"
    "elems closed_menu ''mobile-menu'' = Some [''hidden'']"
    "elems closed_menu ''hamburger-icon'' = Some [''block'']"
    "elems closed_menu ''close-icon'' = Some [''hidden'']"
    by (simp_all add: closed_menu_def)
  have l: "listeners closed_menu = []" by (simp add: closed_menu_def)
  have v: "visible ''hamburger-icon'' closed_menu \<noteq> visible ''close-icon'' closed_menu"
    by (simp add: visible_def e)
  show ?thesis
    using e l v C7_click_flips_and_keeps_icons_exclusive [OF e l v, of 3] by simp
qed

text \<open>
  C8 (as amended): a click is a toggle and not idempotent. With the listener registered,
  a click changes nothing but the presence of the token \<open>hidden\<close> in the class lists of
  the menu panel and the two icons, where it flips it; a second click brings the hidden
  state and the set of class tokens of every element back.
\<close>

theorem C8_click_is_self_inverse_toggle:
  assumes "listeners p = [ToggleMenu ''mobile-menu'' ''hamburger-icon'' ''close-icon'']"
    and "elems p ''mobile-menu'' = Some m" and "elems p ''hamburger-icon'' = Some h"
    and "elems p ''close-icon'' = Some c"
  shows "\<exists>p1 p2. click p = Inr p1 \<and> click p1 = Inr p2
           \<and> listeners p1 = listeners p
           \<and> (\<forall>e. e \<notin> {''mobile-menu'', ''hamburger-icon'', ''close-icon''}
                  \<longrightarrow> elems p1 e = elems p e)
           \<and> (\<forall>e. map_option (removeAll ''hidden'') (elems p1 e)
                  = map_option (removeAll ''hidden'') (elems p e))
           \<and> (\<forall>e. e \<in> {''mobile-menu'', ''hamburger-icon'', ''close-icon''}
                  \<longrightarrow> hidden e p1 = (\<not> hidden e p))
           \<and> (\<forall>e. hidden e p2 = hidden e p)
           \<and> (\<forall>e. map_option set (elems p2 e) = map_option set (elems p e))
           \<and> listeners p2 = listeners p"
proof -
  let ?p1 = "p\<lparr>elems := (elems p)(''mobile-menu'' \<mapsto> toggle ''hidden'' m,
                                    ''hamburger-icon'' \<mapsto> toggle ''hidden'' h,
                                    ''close-icon'' \<mapsto> toggle ''hidden'' c)\<rparr>"
  let ?p2 = "?p1\<lparr>elems := (elems ?p1)
                 (''mobile-menu'' \<mapsto> toggle ''hidden'' (toggle ''hidden'' m),
                  ''hamburger-icon'' \<mapsto> toggle ''hidden'' (toggle ''hidden'' h),
                  ''close-icon'' \<mapsto> toggle ''hidden'' (toggle ''hidden'' c))\<rparr>"
  have s1: "click p = Inr ?p1"
    using assms by (rule click_registered)
  have s2: "click ?p1 = Inr ?p2"
    using assms(1) by (intro click_registered) simp_all
  have a: "listeners ?p1 = listeners p" "listeners ?p2 = listeners p" by simp_all
  have b: "\<forall>e. e \<notin> {''mobile-menu'', ''hamburger-icon'', ''close-icon''}
               \<longrightarrow> elems ?p1 e = elems p e"
    by simp
  have c: "\<forall>e. map_option (removeAll ''hidden'') (elems ?p1 e)
               = map_option (removeAll ''hidden'') (elems p e)"
    using assms(2-4) by (simp add: toggle_keeps_others)
  have d: "\<forall>e. e \<in> {''mobile-menu'', ''hamburger-icon'', ''close-icon''}
               \<longrightarrow> hidden e ?p1 = (\<not> hidden e p)"
    using assms(2-4) by (simp add: hidden_def toggle_member)
  have e: "\<forall>e. hidden e ?p2 = hidden e p"
    using assms(2-4) by (simp add: hidden_def toggle_member)
  have f: "\<forall>e. map_option set (elems ?p2 e) = map_option set (elems p e)"
    using assms(2-4) by (simp add: toggle_twice_set)
  show ?thesis
    using s1 s2 a b c d e f
    by (intro exI [of _ ?p1] exI [of _ ?p2] conjI)
qed

theorem C8_click_is_self_inverse_toggle_witness:
  "listeners (dom_ready closed_menu)
     = [ToggleMenu ''mobile-menu'' ''hamburger-icon'' ''close-icon'']
   \<and> elems (dom_ready closed_menu) ''mobile-menu'' = Some [''hidden'']
   \<and> elems (dom_ready closed_menu) ''hamburger-icon'' = Some [''block'']
   \<and> elems (dom_ready closed_menu) ''close-icon'' = Some [''hidden'']
   \<and> ''mobile-menu-button'' \<notin> {''mobile-menu'', ''hamburger-icon'', ''close-icon''}
   \<and> ''mobile-menu'' \<in> {''mobile-menu'', ''hamburger-icon'', ''close-icon''}
   \<and> (\<exists>p1 p2. click (dom_ready closed_menu) = Inr p1 \<and> click p1 = Inr p2
         \<and> elems p1 ''mobile-menu-button'' = elems (dom_ready closed_menu) ''mobile-menu-button''
         \<and> hidden ''mobile-menu'' p1 = (\<not> hidden ''mobile-menu'' (dom_ready closed_menu))
         \<and> hidden ''mobile-menu'' p2 = hidden ''mobile-menu'' (dom_ready closed_menu))"
proof -
  have l: "listeners (dom_ready closed_menu)
             = [ToggleMenu ''mobile-menu'' ''hamburger-icon'' ''close-icon'']"
    by (simp add: dom_ready_def closed_menu_def)
  have e: "elems (dom_ready closed_menu) ''mobile-menu'' = Some [''hidden'']"
    "elems (dom_ready closed_menu) ''hamburger-icon'' = Some [''block'']"
    "elems (dom_ready closed_menu) ''close-icon'' = Some [''hidden'']"
    by (simp_all add: dom_ready_def closed_menu_def)
  from C8_click_is_self_inverse_toggle [OF l e]
  obtain p1 p2 where "click (dom_ready closed_menu) = Inr p1" and "click p1 = Inr p2"
    and "\<forall>e. e \<notin> {''mobile-menu'', ''hamburger-icon'', ''close-icon''}
              \<longrightarrow> elems p1 e = elems (dom_ready closed_menu) e"
    and "\<forall>e. e \<in> {''mobile-menu'', ''hamburger-icon'', ''close-icon''}
              \<longrightarrow> hidden e p1 = (\<not> hidden e (dom_ready closed_menu))"
    and "\<forall>e. hidden e p2 = hidden e (dom_ready closed_menu)"
    by blast
  then have "click (dom_ready closed_menu) = Inr p1 \<and> click p1 = Inr p2
         \<and> elems p1 ''mobile-menu-button'' = elems (dom_ready closed_menu) ''mobile-menu-button''
         \<and> hidden ''mobile-menu'' p1 = (\<not> hidden ''mobile-menu'' (dom_ready closed_menu))
         \<and> hidden ''mobile-menu'' p2 = hidden ''mobile-menu'' (dom_ready closed_menu)"
    by simp
  then show ?thesis using l e by blast
qed

text \<open>
  The claim as it is written fails: idempotence would make the second click change
  nothing, but on the page with the menu closed one click and two clicks give
  different pages.
\<close>

theorem C8_click_not_idempotent_counterexample:
  "clicks 2 (dom_ready closed_menu) \<noteq> clicks 1 (dom_ready closed_menu)"
proof -
  have l: "listeners (dom_ready closed_menu)
             = [ToggleMenu ''mobile-menu'' ''hamburger-icon'' ''close-icon'']"
    by (simp add: dom_ready_def closed_menu_def)
  have e: "elems (dom_ready closed_menu) ''mobile-menu'' = Some [''hidden'']"
    "elems (dom_ready closed_menu) ''hamburger-icon'' = Some [''block'']"
    "elems (dom_ready closed_menu) ''close-icon'' = Some [''hidden'']"
    by (simp_all add: dom_ready_def closed_menu_def)
  from clicks_registered [OF l e, of 1]
  obtain p1 m1 where p1: "clicks 1 (dom_ready closed_menu) = Inr p1"
    and m1: "elems p1 ''mobile-menu'' = Some m1" "''hidden'' \<notin> set m1"
    by auto
  from clicks_registered [OF l e, of 2]
  obtain p2 m2 where p2: "clicks 2 (dom_ready closed_menu) = Inr p2"
    and m2: "elems p2 ''mobile-menu'' = Some m2" "''hidden'' \<in> set m2"
    by auto
  from m1 m2 have "p1 \<noteq> p2" by auto
  with p1 p2 show ?thesis by simp
qed

text \<open>
  C10: when one of the four menu elements is missing at DOM-ready, no click listener
  is registered, and any number of clicks raises no error and leaves the page as it was.
\<close>

theorem C10_absent_element_no_listener:
  assumes "listeners p0 = []"
    and "elems p0 ''mobile-menu-button'' = None \<or> elems p0 ''mobile-menu'' = None
         \<or> elems p0 ''hamburger-icon'' = None \<or> elems p0 ''close-icon'' = None"
  shows "listeners (dom_ready p0) = []
         \<and> click (dom_ready p0) = Inr p0
         \<and> clicks n (dom_ready p0) = Inr p0"
  using assms(1) clicks_unregistered [of p0 n]
  by (simp add: dom_ready_one_absent [OF assms(2)] click_def)

theorem C10_absent_element_no_listener_witness:
  "listeners menu_without_close_icon = []
   \<and> elems menu_without_close_icon ''close-icon'' = None
   \<and> listeners (dom_ready menu_without_close_icon) = []
   \<and> click (dom_ready menu_without_close_icon) = Inr menu_without_close_icon
   \<and> clicks 2 (dom_ready menu_without_close_icon) = Inr menu_without_close_icon"
proof -
  have l: "listeners menu_without_close_icon = []"
    by (simp add: menu_without_close_icon_def)
  have a: "elems menu_without_close_icon ''close-icon'' = None"
    by (simp add: menu_without_close_icon_def)
  then have d: "elems menu_without_close_icon ''mobile-menu-button'' = None
      \<or> elems menu_without_close_icon ''mobile-menu'' = None
      \<or> elems menu_without_close_icon ''hamburger-icon'' = None
      \<or> elems menu_without_close_icon ''close-icon'' = None"
    by simp
  show ?thesis
    using l a C10_absent_element_no_listener [OF l d, of 2] by simp
qed

end
